theory Spec2Isabelle
  imports Main "HOL-Library.Word" "HOL-Library.Signed_Division"
begin

section \<open>Inline NULL sentinels (Shared/InlineNullValues.h)\<close>

text \<open>
  The header computes, from a type descriptor, the in-band value that stands for SQL NULL.
  Its three entry points are templates over the descriptor class \<open>SQL_TYPE_INFO\<close>; the
  class itself, the two enumerations, the \<open>CHECK\<close> macros, the floating-point macros and
  the template \<open>inline_int_null_value<T>\<close> are declared in other headers.
\<close>

subsection \<open>Data model\<close>

text \<open>
  Modelled from the spec: the enumeration of logical types is declared outside the header.
  The fourteen enumerators that the header names keep their names; \<open>kSTRING\<close> is the
  string type of the specification (the header recognises a string through \<open>is_string\<close>
  only, never through its enumerator), and \<open>kOTHER_TYPE\<close> stands for any further
  enumerator.
\<close>

datatype SQLTypes =
    kBOOLEAN | kTINYINT | kSMALLINT | kINT | kBIGINT
  | kFLOAT | kDOUBLE
  | kTIMESTAMP | kTIME | kDATE | kINTERVAL_DAY_TIME | kINTERVAL_YEAR_MONTH
  | kDECIMAL | kNUMERIC
  | kSTRING
  | kOTHER_TYPE nat

text \<open>
  Modelled from the spec: the enumeration of compression schemes is declared outside the
  header. The four schemes the header names, and \<open>kENCODING_OTHER\<close> for any further one.
\<close>

datatype EncodingType =
    kENCODING_NONE | kENCODING_FIXED | kENCODING_DICT | kENCODING_DATE_IN_DAYS
  | kENCODING_OTHER nat

text \<open>
  The descriptor is a template parameter, read through const member functions only. It is
  modelled by what those member functions return: one field per member function the header
  calls. Nothing in the header relates the classification predicates to \<open>get_type\<close>, so
  they are independent fields, and every theorem below holds for any descriptor class.
  The integer-valued getters are mathematical integers (their C++ type is fixed by the
  descriptor class, not by the header).
\<close>

record SQL_TYPE_INFO =
  get_type :: SQLTypes
  get_compression :: EncodingType
  get_comp_param :: int
  get_size :: int
  get_logical_size :: int
  is_string :: bool
  is_integer :: bool
  is_time :: bool
  is_decimal :: bool
  is_fp :: bool

text \<open>
  A call either returns or does not: \<open>Abort\<close> is a failed \<open>CHECK\<close>, \<open>CHECK_EQ\<close> or a call
  of \<open>abort()\<close>; \<open>UndefinedShift\<close> is a left shift whose count is negative or not less
  than the width of \<open>long\<close>, to which C++ gives no meaning.
\<close>

datatype error = Abort | UndefinedShift

type_synonym int64_t = "64 word"

subsection \<open>The integer sentinel table\<close>

text \<open>The six instantiations of \<open>inline_int_null_value<T>\<close> that the header uses.\<close>

datatype int_type = Int8 | Int16 | Int32 | Int64 | UInt8 | UInt16

fun bits :: "int_type \<Rightarrow> nat" where
  "bits Int8 = 8"
| "bits Int16 = 16"
| "bits Int32 = 32"
| "bits Int64 = 64"
| "bits UInt8 = 8"
| "bits UInt16 = 16"

fun is_signed :: "int_type \<Rightarrow> bool" where
  "is_signed UInt8 = False"
| "is_signed UInt16 = False"
| "is_signed T = True"

text \<open>
  Modelled from the spec: \<open>inline_int_null_value<T>()\<close> is declared outside the header.
  Section 4.1 of the specification: a signed width W has the sentinel \<open>- 2 ^ (W - 1)\<close>, the
  minimum of the type; the unsigned 8- and 16-bit variants have \<open>2 ^ W - 1\<close>, the maximum.
\<close>

definition inline_int_null_value :: "int_type \<Rightarrow> int" where
  "inline_int_null_value T =
     (if is_signed T then - (2 ^ (bits T - 1)) else 2 ^ bits T - 1)"

text \<open>
  The implicit conversion of a value of type \<open>T\<close> to the return type \<open>int64_t\<close>: every
  value of the six types is representable, so the conversion keeps the value.
\<close>

definition to_int64 :: "int \<Rightarrow> int64_t" where
  "to_int64 v = word_of_int v"

subsection \<open>inline_int_null_val\<close>

text \<open>The \<open>switch (type)\<close> of \<open>inline_int_null_val\<close>, lines 51 to 73.\<close>

fun int_null_switch :: "SQLTypes \<Rightarrow> error + int64_t" where
  "int_null_switch kBOOLEAN = Inr (to_int64 (inline_int_null_value Int8))"
| "int_null_switch kTINYINT = Inr (to_int64 (inline_int_null_value Int8))"
| "int_null_switch kSMALLINT = Inr (to_int64 (inline_int_null_value Int16))"
| "int_null_switch kINT = Inr (to_int64 (inline_int_null_value Int32))"
| "int_null_switch kBIGINT = Inr (to_int64 (inline_int_null_value Int64))"
| "int_null_switch kTIMESTAMP = Inr (to_int64 (inline_int_null_value Int64))"
| "int_null_switch kTIME = Inr (to_int64 (inline_int_null_value Int64))"
| "int_null_switch kDATE = Inr (to_int64 (inline_int_null_value Int64))"
| "int_null_switch kINTERVAL_DAY_TIME = Inr (to_int64 (inline_int_null_value Int64))"
| "int_null_switch kINTERVAL_YEAR_MONTH = Inr (to_int64 (inline_int_null_value Int64))"
| "int_null_switch kDECIMAL = Inr (to_int64 (inline_int_null_value Int64))"
| "int_null_switch kNUMERIC = Inr (to_int64 (inline_int_null_value Int64))"
| "int_null_switch _ = Inl Abort"

text \<open>
  Lines 42 to 50, then the switch. A string descriptor passes two \<open>CHECK_EQ\<close> and goes on
  with \<open>type = kINT\<close>; any other descriptor passes one and goes on with its own type.
\<close>

definition inline_int_null_val :: "SQL_TYPE_INFO \<Rightarrow> error + int64_t" where
  "inline_int_null_val ti =
     (if is_string ti then
        (if kENCODING_DICT \<noteq> get_compression ti then Inl Abort
         else if 4 \<noteq> get_logical_size ti then Inl Abort
         else int_null_switch kINT)
      else
        (if kENCODING_NONE \<noteq> get_compression ti then Inl Abort
         else int_null_switch (get_type ti)))"

subsection \<open>inline_fixed_encoding_null_val\<close>

text \<open>
  Line 117, \<open>-(1L << n)\<close> with \<open>n = ti.get_comp_param() - 1\<close>. \<open>long\<close> has 64 bits on the
  platforms of the repository. The shift is defined for a count from 0 to 63; the
  arithmetic is two's complement, so that the negation for \<open>n = 63\<close> wraps around.
\<close>

definition neg_shl_1L :: "int \<Rightarrow> error + int64_t" where
  "neg_shl_1L n =
     (if 0 \<le> n \<and> n < 64 then Inr (- (push_bit (nat n) (1 :: int64_t)))
      else Inl UndefinedShift)"

text \<open>
  Lines 77 to 118. \<open>%\<close> is the C++ remainder, which truncates towards zero: \<open>smod\<close>.
\<close>

definition inline_fixed_encoding_null_val :: "SQL_TYPE_INFO \<Rightarrow> error + int64_t" where
  "inline_fixed_encoding_null_val ti =
     (if get_compression ti = kENCODING_NONE then inline_int_null_val ti
      else if get_compression ti = kENCODING_DATE_IN_DAYS then
        (if get_comp_param ti = 0 \<or> get_comp_param ti = 32
           then Inr (to_int64 (inline_int_null_value Int32))
         else if get_comp_param ti = 16
           then Inr (to_int64 (inline_int_null_value Int16))
         else Inl Abort)
      else if get_compression ti = kENCODING_DICT then
        (if \<not> is_string ti then Inl Abort
         else if get_size ti = 1 then Inr (to_int64 (inline_int_null_value UInt8))
         else if get_size ti = 2 then Inr (to_int64 (inline_int_null_value UInt16))
         else if get_size ti = 4 then Inr (to_int64 (inline_int_null_value Int32))
         else Inl Abort)
      else if kENCODING_FIXED \<noteq> get_compression ti then Inl Abort
      else if \<not> (is_integer ti \<or> is_time ti \<or> is_decimal ti) then Inl Abort
      else if 0 \<noteq> get_comp_param ti smod 8 then Inl Abort
      else neg_shl_1L (get_comp_param ti - 1))"

subsection \<open>inline_fp_null_val\<close>

text \<open>
  The macros \<open>NULL_FLOAT\<close> and \<open>NULL_DOUBLE\<close> are defined outside the header, so the two
  constants are parameters, together with the conversion from \<open>float\<close> to \<open>double\<close> that
  the return type \<open>double\<close> of \<open>inline_fp_null_val\<close> forces on the \<open>float\<close> constant.
\<close>

record ('f, 'd) fp_consts =
  NULL_FLOAT :: 'f
  NULL_DOUBLE :: 'd
  double_of_float :: "'f \<Rightarrow> 'd"

definition inline_fp_null_value_float :: "('f, 'd) fp_consts \<Rightarrow> 'f" where
  "inline_fp_null_value_float c = NULL_FLOAT c"

definition inline_fp_null_value_double :: "('f, 'd) fp_consts \<Rightarrow> 'd" where
  "inline_fp_null_value_double c = NULL_DOUBLE c"

definition inline_fp_null_val :: "('f, 'd) fp_consts \<Rightarrow> SQL_TYPE_INFO \<Rightarrow> error + 'd" where
  "inline_fp_null_val c ti =
     (if \<not> is_fp ti then Inl Abort
      else case get_type ti of
          kFLOAT \<Rightarrow> Inr (double_of_float c (inline_fp_null_value_float c))
        | kDOUBLE \<Rightarrow> Inr (inline_fp_null_value_double c)
        | _ \<Rightarrow> Inl Abort)"

subsection \<open>Reading an outcome\<close>

definition returns :: "error + int64_t \<Rightarrow> int \<Rightarrow> bool" where
  "returns res v = (case res of Inr r \<Rightarrow> sint r = v | Inl _ \<Rightarrow> False)"

definition aborts :: "error + 'a \<Rightarrow> bool" where
  "aborts res = (res = Inl Abort)"

subsection \<open>Example descriptors\<close>

text \<open>The five end-to-end scenarios of the specification, section 8.\<close>

definition scenario_A :: SQL_TYPE_INFO where
  "scenario_A = \<lparr>get_type = kINT, get_compression = kENCODING_NONE, get_comp_param = 0,
     get_size = 4, get_logical_size = 4, is_string = False, is_integer = True,
     is_time = False, is_decimal = False, is_fp = False\<rparr>"

definition scenario_B :: SQL_TYPE_INFO where
  "scenario_B = \<lparr>get_type = kSTRING, get_compression = kENCODING_DICT, get_comp_param = 0,
     get_size = 1, get_logical_size = 4, is_string = True, is_integer = False,
     is_time = False, is_decimal = False, is_fp = False\<rparr>"

definition scenario_C :: SQL_TYPE_INFO where
  "scenario_C = \<lparr>get_type = kDATE, get_compression = kENCODING_DATE_IN_DAYS,
     get_comp_param = 16, get_size = 2, get_logical_size = 8, is_string = False,
     is_integer = False, is_time = True, is_decimal = False, is_fp = False\<rparr>"

definition scenario_D :: SQL_TYPE_INFO where
  "scenario_D = \<lparr>get_type = kBIGINT, get_compression = kENCODING_FIXED,
     get_comp_param = 24, get_size = 3, get_logical_size = 8, is_string = False,
     is_integer = True, is_time = False, is_decimal = False, is_fp = False\<rparr>"

definition scenario_E :: SQL_TYPE_INFO where
  "scenario_E = \<lparr>get_type = kDOUBLE, get_compression = kENCODING_NONE, get_comp_param = 0,
     get_size = 8, get_logical_size = 8, is_string = False, is_integer = False,
     is_time = False, is_decimal = False, is_fp = True\<rparr>"

text \<open>Floating-point constants that only carry their names, to run the dispatch on.\<close>

definition named_fp_consts :: "(string, string) fp_consts" where
  "named_fp_consts = \<lparr>NULL_FLOAT = ''NULL_FLOAT'', NULL_DOUBLE = ''NULL_DOUBLE'',
     double_of_float = (\<lambda>x. ''(double) '' @ x)\<rparr>"

section \<open>Properties\<close>

subsection \<open>Auxiliary facts\<close>

lemma returns_Inr: "returns (Inr r) v \<longleftrightarrow> sint r = v"
  by (simp add: returns_def)

lemma returns_Inl: "\<not> returns (Inl e) v"
  by (simp add: returns_def)

lemma aborts_Inl: "aborts (Inl e) \<longleftrightarrow> e = Abort"
  by (simp add: aborts_def)

lemma aborts_Inr: "\<not> aborts (Inr r)"
  by (simp add: aborts_def)

lemmas outcome_simps = returns_Inr returns_Inl aborts_Inl aborts_Inr

text \<open>The six sentinels, read back as signed 64-bit values.\<close>

lemma sint_null_Int8: "sint (to_int64 (inline_int_null_value Int8)) = - 128"
  by (simp add: to_int64_def inline_int_null_value_def)

lemma sint_null_Int16: "sint (to_int64 (inline_int_null_value Int16)) = - 32768"
  by (simp add: to_int64_def inline_int_null_value_def)

lemma sint_null_Int32: "sint (to_int64 (inline_int_null_value Int32)) = - (2 ^ 31)"
  by (simp add: to_int64_def inline_int_null_value_def)

lemma sint_null_Int64: "sint (to_int64 (inline_int_null_value Int64)) = - (2 ^ 63)"
  by (simp add: to_int64_def inline_int_null_value_def)

lemma sint_null_UInt8: "sint (to_int64 (inline_int_null_value UInt8)) = 255"
  by (simp add: to_int64_def inline_int_null_value_def)

lemma sint_null_UInt16: "sint (to_int64 (inline_int_null_value UInt16)) = 65535"
  by (simp add: to_int64_def inline_int_null_value_def)

lemmas sint_null_simps = sint_null_Int8 sint_null_Int16 sint_null_Int32 sint_null_Int64
  sint_null_UInt8 sint_null_UInt16

lemma smod_8_dvd: "(k :: int) smod 8 = 0 \<longleftrightarrow> 8 dvd k"
proof -
  have "k smod 8 = 0 \<longleftrightarrow> \<bar>k\<bar> mod 8 = 0"
    by (simp add: smod_int_alt_def sgn_if)
  also have "\<dots> \<longleftrightarrow> 8 dvd \<bar>k\<bar>"
    by (simp add: dvd_eq_mod_eq_0)
  also have "\<dots> \<longleftrightarrow> 8 dvd k"
    by simp
  finally show ?thesis .
qed

subsection \<open>Dictionary compression\<close>

text \<open>
  C1. Under dictionary compression, \<open>inline_fixed_encoding_null_val\<close> aborts on a
  descriptor that is not a string; on a string it returns 255 for storage size 1, 65535
  for storage size 2 and \<open>- 2 ^ 31\<close> (not \<open>2 ^ 32 - 1\<close>) for storage size 4; any other
  storage size aborts.
\<close>

theorem dict_null_val_by_size:
  assumes "get_compression ti = kENCODING_DICT"
  shows "(\<not> is_string ti \<longrightarrow> aborts (inline_fixed_encoding_null_val ti))
    \<and> (is_string ti \<and> get_size ti = 1 \<longrightarrow> returns (inline_fixed_encoding_null_val ti) 255)
    \<and> (is_string ti \<and> get_size ti = 2 \<longrightarrow> returns (inline_fixed_encoding_null_val ti) 65535)
    \<and> (is_string ti \<and> get_size ti = 4 \<longrightarrow>
          returns (inline_fixed_encoding_null_val ti) (- (2 ^ 31))
          \<and> \<not> returns (inline_fixed_encoding_null_val ti) (2 ^ 32 - 1))
    \<and> (get_size ti \<notin> {1, 2, 4} \<longrightarrow> aborts (inline_fixed_encoding_null_val ti))"
  using assms
  by (simp add: inline_fixed_encoding_null_val_def outcome_simps sint_null_simps)

text \<open>
  C1, at scenario B and its variants with storage sizes 2, 4 and 8, and at a dictionary
  descriptor that is not a string.
\<close>

theorem dict_null_val_by_size_witness:
  "get_compression scenario_B = kENCODING_DICT
   \<and> returns (inline_fixed_encoding_null_val scenario_B) 255
   \<and> returns (inline_fixed_encoding_null_val (scenario_B\<lparr>get_size := 2\<rparr>)) 65535
   \<and> returns (inline_fixed_encoding_null_val (scenario_B\<lparr>get_size := 4\<rparr>)) (- 2147483648)
   \<and> aborts (inline_fixed_encoding_null_val (scenario_B\<lparr>get_size := 8\<rparr>))
   \<and> aborts (inline_fixed_encoding_null_val (scenario_B\<lparr>is_string := False\<rparr>))"
  using dict_null_val_by_size [of scenario_B]
    dict_null_val_by_size [of "scenario_B\<lparr>get_size := 2\<rparr>"]
    dict_null_val_by_size [of "scenario_B\<lparr>get_size := 4\<rparr>"]
    dict_null_val_by_size [of "scenario_B\<lparr>get_size := 8\<rparr>"]
    dict_null_val_by_size [of "scenario_B\<lparr>is_string := False\<rparr>"]
  by (simp add: scenario_B_def)

subsection \<open>Date narrowed to days\<close>

text \<open>
  C4. Under date-in-days compression, \<open>inline_fixed_encoding_null_val\<close> returns
  \<open>- 2 ^ 31\<close> for the parameters 0 and 32 (so the two give the same result), \<open>- 32768\<close>
  for the parameter 16, and aborts for every other parameter.
\<close>

theorem date_in_days_null_val:
  assumes "get_compression ti = kENCODING_DATE_IN_DAYS"
  shows "(get_comp_param ti = 0 \<or> get_comp_param ti = 32 \<longrightarrow>
            returns (inline_fixed_encoding_null_val ti) (- (2 ^ 31)))
    \<and> (get_comp_param ti = 16 \<longrightarrow> returns (inline_fixed_encoding_null_val ti) (- 32768))
    \<and> (get_comp_param ti \<notin> {0, 16, 32} \<longrightarrow> aborts (inline_fixed_encoding_null_val ti))
    \<and> inline_fixed_encoding_null_val (ti\<lparr>get_comp_param := 0\<rparr>)
        = inline_fixed_encoding_null_val (ti\<lparr>get_comp_param := 32\<rparr>)"
  using assms
  by (simp add: inline_fixed_encoding_null_val_def outcome_simps sint_null_simps)

text \<open>C4, at scenario C and its variants with the parameters 0, 32 and 8.\<close>

theorem date_in_days_null_val_witness:
  "get_compression scenario_C = kENCODING_DATE_IN_DAYS
   \<and> returns (inline_fixed_encoding_null_val scenario_C) (- 32768)
   \<and> returns (inline_fixed_encoding_null_val (scenario_C\<lparr>get_comp_param := 0\<rparr>))
        (- 2147483648)
   \<and> returns (inline_fixed_encoding_null_val (scenario_C\<lparr>get_comp_param := 32\<rparr>))
        (- 2147483648)
   \<and> aborts (inline_fixed_encoding_null_val (scenario_C\<lparr>get_comp_param := 8\<rparr>))"
  using date_in_days_null_val [of scenario_C]
    date_in_days_null_val [of "scenario_C\<lparr>get_comp_param := 0\<rparr>"]
    date_in_days_null_val [of "scenario_C\<lparr>get_comp_param := 32\<rparr>"]
    date_in_days_null_val [of "scenario_C\<lparr>get_comp_param := 8\<rparr>"]
  by (simp add: scenario_C_def)

subsection \<open>No compression\<close>

text \<open>
  C6. With compression scheme none, \<open>inline_fixed_encoding_null_val\<close> has exactly the
  outcome of \<open>inline_int_null_val\<close> on the same descriptor.
\<close>

theorem none_delegates:
  "get_compression ti = kENCODING_NONE \<Longrightarrow>
     inline_fixed_encoding_null_val ti = inline_int_null_val ti"
  by (simp add: inline_fixed_encoding_null_val_def)

text \<open>C6, at scenario A.\<close>

theorem none_delegates_witness:
  "get_compression scenario_A = kENCODING_NONE
   \<and> inline_fixed_encoding_null_val scenario_A = inline_int_null_val scenario_A"
  using none_delegates [of scenario_A]
  by (simp add: scenario_A_def)

subsection \<open>Fixed-bitwidth compression\<close>

text \<open>
  C2, as the specification states it, fails on the code. The descriptor below is scenario
  D with the compression parameter 0: it has fixed-bitwidth compression and a parameter
  that is not positive, and the call does not abort. The only check on the parameter,
  \<open>CHECK_EQ(0, ti.get_comp_param() % 8)\<close>, passes for 0, and the call goes on to the shift
  \<open>1L << -1\<close>.
\<close>

theorem fixed_zero_param_not_aborted:
  "get_compression (scenario_D\<lparr>get_comp_param := 0\<rparr>) = kENCODING_FIXED
   \<and> \<not> 0 < get_comp_param (scenario_D\<lparr>get_comp_param := 0\<rparr>)
   \<and> inline_fixed_encoding_null_val (scenario_D\<lparr>get_comp_param := 0\<rparr>) = Inl UndefinedShift
   \<and> \<not> aborts (inline_fixed_encoding_null_val (scenario_D\<lparr>get_comp_param := 0\<rparr>))"
  by (simp add: scenario_D_def inline_fixed_encoding_null_val_def neg_shl_1L_def aborts_def)

text \<open>
  C2, amended. Under fixed-bitwidth compression, \<open>inline_fixed_encoding_null_val\<close> aborts
  unless the descriptor is integer, temporal or decimal typed and the compression
  parameter is a multiple of 8; in particular a parameter that is not a multiple of 8
  aborts.
\<close>

theorem fixed_checks_abort:
  assumes "get_compression ti = kENCODING_FIXED"
    and "\<not> ((is_integer ti \<or> is_time ti \<or> is_decimal ti) \<and> 8 dvd get_comp_param ti)"
  shows "aborts (inline_fixed_encoding_null_val ti)"
  using assms
  by (auto simp: inline_fixed_encoding_null_val_def outcome_simps smod_8_dvd)

text \<open>
  C2, amended, at scenario D with the parameter 12, and at scenario D with none of the
  three classifications.
\<close>

theorem fixed_checks_abort_witness:
  "get_compression scenario_D = kENCODING_FIXED
   \<and> \<not> 8 dvd (12 :: int)
   \<and> aborts (inline_fixed_encoding_null_val (scenario_D\<lparr>get_comp_param := 12\<rparr>))
   \<and> aborts (inline_fixed_encoding_null_val (scenario_D\<lparr>is_integer := False\<rparr>))"
  using fixed_checks_abort [of "scenario_D\<lparr>get_comp_param := 12\<rparr>"]
    fixed_checks_abort [of "scenario_D\<lparr>is_integer := False\<rparr>"]
  by (simp add: scenario_D_def)

lemma neg_shl_1L_fixed:
  assumes "p \<in> {8, 16, 24, 32, 40, 48, 56, 64}"
  shows "p smod 8 = 0 \<and> returns (neg_shl_1L (p - 1)) (- (2 ^ nat (p - 1)))"
proof -
  from assms consider "p = 8" | "p = 16" | "p = 24" | "p = 32"
    | "p = 40" | "p = 48" | "p = 56" | "p = 64"
    by auto
  then show ?thesis
  proof cases
    case 1 then show ?thesis by (simp add: neg_shl_1L_def returns_Inr smod_8_dvd)
  next
    case 2 then show ?thesis by (simp add: neg_shl_1L_def returns_Inr smod_8_dvd)
  next
    case 3 then show ?thesis by (simp add: neg_shl_1L_def returns_Inr smod_8_dvd)
  next
    case 4 then show ?thesis by (simp add: neg_shl_1L_def returns_Inr smod_8_dvd)
  next
    case 5 then show ?thesis by (simp add: neg_shl_1L_def returns_Inr smod_8_dvd)
  next
    case 6 then show ?thesis by (simp add: neg_shl_1L_def returns_Inr smod_8_dvd)
  next
    case 7 then show ?thesis by (simp add: neg_shl_1L_def returns_Inr smod_8_dvd)
  next
    case 8 then show ?thesis by (simp add: neg_shl_1L_def returns_Inr smod_8_dvd)
  qed
qed

text \<open>
  C3. Under fixed-bitwidth compression, for a descriptor that is integer, temporal or
  decimal typed and a compression parameter \<open>p\<close> among 8, 16, 24, 32, 40, 48, 56 and 64,
  \<open>inline_fixed_encoding_null_val\<close> returns the 64-bit signed value \<open>- 2 ^ (p - 1)\<close>.
\<close>

theorem fixed_null_val_value:
  assumes "get_compression ti = kENCODING_FIXED"
    and "is_integer ti \<or> is_time ti \<or> is_decimal ti"
    and "get_comp_param ti = p"
    and "p \<in> {8, 16, 24, 32, 40, 48, 56, 64}"
  shows "returns (inline_fixed_encoding_null_val ti) (- (2 ^ nat (p - 1)))"
proof -
  from neg_shl_1L_fixed [OF assms(4)]
  have "p smod 8 = 0" and "returns (neg_shl_1L (p - 1)) (- (2 ^ nat (p - 1)))"
    by simp_all
  with assms(1-3) show ?thesis
    by (simp add: inline_fixed_encoding_null_val_def)
qed

text \<open>
  C3, at scenario D (parameter 24, the value \<open>- 8388608\<close>) and at its variant with the
  parameter 64 (the value \<open>- 2 ^ 63\<close>).
\<close>

theorem fixed_null_val_value_witness:
  "get_compression scenario_D = kENCODING_FIXED
   \<and> is_integer scenario_D
   \<and> get_comp_param scenario_D = 24
   \<and> returns (inline_fixed_encoding_null_val scenario_D) (- 8388608)
   \<and> returns (inline_fixed_encoding_null_val (scenario_D\<lparr>get_comp_param := 64\<rparr>))
        (- 9223372036854775808)"
  using fixed_null_val_value [of scenario_D 24]
    fixed_null_val_value [of "scenario_D\<lparr>get_comp_param := 64\<rparr>" 64]
  by (simp add: scenario_D_def)

subsection \<open>The logical mapping\<close>

lemma int_null_switch_8:
  "t \<in> {kBOOLEAN, kTINYINT} \<Longrightarrow> returns (int_null_switch t) (- 128)"
  by (auto simp: outcome_simps sint_null_simps)

lemma int_null_switch_16: "returns (int_null_switch kSMALLINT) (- 32768)"
  by (simp add: outcome_simps sint_null_simps)

lemma int_null_switch_32: "returns (int_null_switch kINT) (- 2147483648)"
  by (simp add: outcome_simps sint_null_simps)

lemma int_null_switch_64:
  "t \<in> {kBIGINT, kTIMESTAMP, kTIME, kDATE, kINTERVAL_DAY_TIME, kINTERVAL_YEAR_MONTH,
      kDECIMAL, kNUMERIC} \<Longrightarrow> returns (int_null_switch t) (- (2 ^ 63))"
  by (auto simp: outcome_simps sint_null_simps)

lemma int_null_switch_default:
  "t \<notin> {kBOOLEAN, kTINYINT, kSMALLINT, kINT, kBIGINT, kTIMESTAMP, kTIME, kDATE,
      kINTERVAL_DAY_TIME, kINTERVAL_YEAR_MONTH, kDECIMAL, kNUMERIC} \<Longrightarrow>
   aborts (int_null_switch t)"
  by (cases t) (simp_all add: outcome_simps)

lemma inline_int_null_val_string:
  "is_string ti \<and> get_compression ti = kENCODING_DICT \<and> get_logical_size ti = 4 \<Longrightarrow>
     inline_int_null_val ti = int_null_switch kINT"
  by (simp add: inline_int_null_val_def)

lemma inline_int_null_val_plain:
  "\<not> is_string ti \<and> get_compression ti = kENCODING_NONE \<Longrightarrow>
     inline_int_null_val ti = int_null_switch (get_type ti)"
  by (simp add: inline_int_null_val_def)

text \<open>
  C5. On a descriptor that \<open>inline_int_null_val\<close> accepts, the sentinel follows the
  logical type: a dictionary-id string gives \<open>- 2147483648\<close>; otherwise boolean and tiny
  integer give \<open>- 128\<close>, small integer \<open>- 32768\<close>, regular integer \<open>- 2147483648\<close>, and
  big integer, timestamp, time, date, the two intervals, decimal and numeric give
  \<open>- 2 ^ 63\<close>; any other logical type aborts.
\<close>

theorem int_null_val_by_type:
  "(is_string ti \<and> get_compression ti = kENCODING_DICT \<and> get_logical_size ti = 4 \<longrightarrow>
      returns (inline_int_null_val ti) (- 2147483648))
   \<and> (\<not> is_string ti \<and> get_compression ti = kENCODING_NONE \<longrightarrow>
        (get_type ti \<in> {kBOOLEAN, kTINYINT} \<longrightarrow> returns (inline_int_null_val ti) (- 128))
      \<and> (get_type ti = kSMALLINT \<longrightarrow> returns (inline_int_null_val ti) (- 32768))
      \<and> (get_type ti = kINT \<longrightarrow> returns (inline_int_null_val ti) (- 2147483648))
      \<and> (get_type ti \<in> {kBIGINT, kTIMESTAMP, kTIME, kDATE, kINTERVAL_DAY_TIME,
            kINTERVAL_YEAR_MONTH, kDECIMAL, kNUMERIC} \<longrightarrow>
            returns (inline_int_null_val ti) (- (2 ^ 63)))
      \<and> (get_type ti \<notin> {kBOOLEAN, kTINYINT, kSMALLINT, kINT, kBIGINT, kTIMESTAMP, kTIME,
            kDATE, kINTERVAL_DAY_TIME, kINTERVAL_YEAR_MONTH, kDECIMAL, kNUMERIC} \<longrightarrow>
            aborts (inline_int_null_val ti)))"
proof (intro conjI impI)
  assume "is_string ti \<and> get_compression ti = kENCODING_DICT \<and> get_logical_size ti = 4"
  then have "inline_int_null_val ti = int_null_switch kINT"
    by (rule inline_int_null_val_string)
  then show "returns (inline_int_null_val ti) (- 2147483648)"
    by (simp only: int_null_switch_32)
next
  assume "\<not> is_string ti \<and> get_compression ti = kENCODING_NONE"
    and "get_type ti \<in> {kBOOLEAN, kTINYINT}"
  then show "returns (inline_int_null_val ti) (- 128)"
    by (metis inline_int_null_val_plain int_null_switch_8)
next
  assume "\<not> is_string ti \<and> get_compression ti = kENCODING_NONE"
    and "get_type ti = kSMALLINT"
  then show "returns (inline_int_null_val ti) (- 32768)"
    by (metis inline_int_null_val_plain int_null_switch_16)
next
  assume "\<not> is_string ti \<and> get_compression ti = kENCODING_NONE"
    and "get_type ti = kINT"
  then show "returns (inline_int_null_val ti) (- 2147483648)"
    by (metis inline_int_null_val_plain int_null_switch_32)
next
  assume "\<not> is_string ti \<and> get_compression ti = kENCODING_NONE"
    and "get_type ti \<in> {kBIGINT, kTIMESTAMP, kTIME, kDATE, kINTERVAL_DAY_TIME,
      kINTERVAL_YEAR_MONTH, kDECIMAL, kNUMERIC}"
  then show "returns (inline_int_null_val ti) (- (2 ^ 63))"
    by (metis inline_int_null_val_plain int_null_switch_64)
next
  assume "\<not> is_string ti \<and> get_compression ti = kENCODING_NONE"
    and "get_type ti \<notin> {kBOOLEAN, kTINYINT, kSMALLINT, kINT, kBIGINT, kTIMESTAMP, kTIME,
      kDATE, kINTERVAL_DAY_TIME, kINTERVAL_YEAR_MONTH, kDECIMAL, kNUMERIC}"
  then show "aborts (inline_int_null_val ti)"
    by (metis inline_int_null_val_plain int_null_switch_default)
qed

text \<open>
  C5, at scenario A (regular integer), at its variants of boolean, small integer, date and
  float32 type, and at a dictionary-id string.
\<close>

theorem int_null_val_by_type_witness:
  "returns (inline_int_null_val scenario_A) (- 2147483648)
   \<and> returns (inline_int_null_val (scenario_A\<lparr>get_type := kBOOLEAN\<rparr>)) (- 128)
   \<and> returns (inline_int_null_val (scenario_A\<lparr>get_type := kSMALLINT\<rparr>)) (- 32768)
   \<and> returns (inline_int_null_val (scenario_A\<lparr>get_type := kDATE\<rparr>)) (- 9223372036854775808)
   \<and> aborts (inline_int_null_val (scenario_A\<lparr>get_type := kFLOAT\<rparr>))
   \<and> returns (inline_int_null_val scenario_B) (- 2147483648)"
  using int_null_val_by_type [of scenario_A]
    int_null_val_by_type [of "scenario_A\<lparr>get_type := kBOOLEAN\<rparr>"]
    int_null_val_by_type [of "scenario_A\<lparr>get_type := kSMALLINT\<rparr>"]
    int_null_val_by_type [of "scenario_A\<lparr>get_type := kDATE\<rparr>"]
    int_null_val_by_type [of "scenario_A\<lparr>get_type := kFLOAT\<rparr>"]
    int_null_val_by_type [of scenario_B]
  by (simp add: scenario_A_def scenario_B_def)

text \<open>
  C7. \<open>inline_int_null_val\<close> aborts on a string descriptor whose compression is not
  dictionary or whose logical size is not 4, and on a descriptor that is not a string and
  whose compression is not none; a string descriptor that passes is treated as a 32-bit
  integer and gives \<open>- 2 ^ 31\<close>.
\<close>

theorem int_null_val_preconditions:
  "(is_string ti \<and> get_compression ti = kENCODING_DICT \<and> get_logical_size ti = 4 \<longrightarrow>
      returns (inline_int_null_val ti) (- (2 ^ 31)))
   \<and> (is_string ti \<and> get_compression ti \<noteq> kENCODING_DICT \<longrightarrow> aborts (inline_int_null_val ti))
   \<and> (is_string ti \<and> get_logical_size ti \<noteq> 4 \<longrightarrow> aborts (inline_int_null_val ti))
   \<and> (\<not> is_string ti \<and> get_compression ti \<noteq> kENCODING_NONE \<longrightarrow>
        aborts (inline_int_null_val ti))"
  by (simp add: inline_int_null_val_def outcome_simps sint_null_simps)

text \<open>
  C7, at scenario B, at its variants with logical size 8 and with no compression, and at
  scenario D, which is not a string and has fixed-bitwidth compression.
\<close>

theorem int_null_val_preconditions_witness:
  "returns (inline_int_null_val scenario_B) (- 2147483648)
   \<and> aborts (inline_int_null_val (scenario_B\<lparr>get_logical_size := 8\<rparr>))
   \<and> aborts (inline_int_null_val (scenario_B\<lparr>get_compression := kENCODING_NONE\<rparr>))
   \<and> aborts (inline_int_null_val scenario_D)"
  using int_null_val_preconditions [of scenario_B]
    int_null_val_preconditions [of "scenario_B\<lparr>get_logical_size := 8\<rparr>"]
    int_null_val_preconditions [of "scenario_B\<lparr>get_compression := kENCODING_NONE\<rparr>"]
    int_null_val_preconditions [of scenario_D]
  by (simp add: scenario_B_def scenario_D_def)

text \<open>
  C10. On a dictionary-compressed string descriptor of storage size 4 and logical size 4,
  \<open>inline_fixed_encoding_null_val\<close> and \<open>inline_int_null_val\<close> agree: both return
  \<open>- 2 ^ 31\<close>. The encoded path does not depend on the logical size.
\<close>

theorem dict4_paths_agree:
  assumes "get_compression ti = kENCODING_DICT" and "is_string ti"
    and "get_size ti = 4" and "get_logical_size ti = 4"
  shows "returns (inline_fixed_encoding_null_val ti) (- (2 ^ 31))
    \<and> returns (inline_int_null_val ti) (- (2 ^ 31))
    \<and> inline_fixed_encoding_null_val ti = inline_int_null_val ti
    \<and> inline_fixed_encoding_null_val (ti\<lparr>get_logical_size := n\<rparr>)
        = inline_fixed_encoding_null_val ti"
  using assms
  by (simp add: inline_fixed_encoding_null_val_def inline_int_null_val_def
      outcome_simps sint_null_simps)

text \<open>C10, at scenario B with storage size 4.\<close>

theorem dict4_paths_agree_witness:
  "get_compression (scenario_B\<lparr>get_size := 4\<rparr>) = kENCODING_DICT
   \<and> is_string (scenario_B\<lparr>get_size := 4\<rparr>)
   \<and> get_size (scenario_B\<lparr>get_size := 4\<rparr>) = 4
   \<and> get_logical_size (scenario_B\<lparr>get_size := 4\<rparr>) = 4
   \<and> returns (inline_fixed_encoding_null_val (scenario_B\<lparr>get_size := 4\<rparr>)) (- 2147483648)
   \<and> returns (inline_int_null_val (scenario_B\<lparr>get_size := 4\<rparr>)) (- 2147483648)
   \<and> inline_fixed_encoding_null_val (scenario_B\<lparr>get_size := 4, get_logical_size := 7\<rparr>)
       = inline_int_null_val (scenario_B\<lparr>get_size := 4\<rparr>)"
  using dict4_paths_agree [of "scenario_B\<lparr>get_size := 4\<rparr>" 7]
  by (simp add: scenario_B_def)

subsection \<open>The floating-point entry point\<close>

text \<open>
  C8. \<open>inline_fp_null_val\<close> aborts unless the descriptor is floating point; for the type
  float32 it returns the single-precision constant (converted to the return type
  \<open>double\<close>), for float64 the double-precision constant, and for any other logical type
  it aborts.
\<close>

theorem fp_null_val_dispatch:
  "(\<not> is_fp ti \<longrightarrow> aborts (inline_fp_null_val c ti))
   \<and> (is_fp ti \<and> get_type ti = kFLOAT \<longrightarrow>
        inline_fp_null_val c ti = Inr (double_of_float c (NULL_FLOAT c)))
   \<and> (is_fp ti \<and> get_type ti = kDOUBLE \<longrightarrow> inline_fp_null_val c ti = Inr (NULL_DOUBLE c))
   \<and> (get_type ti \<notin> {kFLOAT, kDOUBLE} \<longrightarrow> aborts (inline_fp_null_val c ti))"
  by (cases "get_type ti")
    (simp_all add: inline_fp_null_val_def inline_fp_null_value_float_def
      inline_fp_null_value_double_def outcome_simps)

text \<open>
  C8, at scenario E (float64), at its float32 variant, at scenario A, which is not floating
  point, and at a floating-point descriptor of integer type.
\<close>

theorem fp_null_val_dispatch_witness:
  "inline_fp_null_val named_fp_consts scenario_E = Inr ''NULL_DOUBLE''
   \<and> inline_fp_null_val named_fp_consts (scenario_E\<lparr>get_type := kFLOAT\<rparr>)
       = Inr ''(double) NULL_FLOAT''
   \<and> aborts (inline_fp_null_val named_fp_consts scenario_A)
   \<and> aborts (inline_fp_null_val named_fp_consts (scenario_E\<lparr>get_type := kINT\<rparr>))"
  using fp_null_val_dispatch [of scenario_E named_fp_consts]
    fp_null_val_dispatch [of "scenario_E\<lparr>get_type := kFLOAT\<rparr>" named_fp_consts]
    fp_null_val_dispatch [of scenario_A named_fp_consts]
    fp_null_val_dispatch [of "scenario_E\<lparr>get_type := kINT\<rparr>" named_fp_consts]
  by (simp add: scenario_A_def scenario_E_def named_fp_consts_def)

end
